theory Spec2Isabelle
  imports Complex_Main
begin

section \<open>Numbers and strings of the handlers\<close>

text \<open>
  The handlers are TypeScript; their numbers are modelled as exact rationals, and the one
  non-number the arithmetic of the feedback handler can produce (\<open>0 / 0\<close>, when the list
  of evaluations is empty) as \<open>None\<close>. Strings are \<open>string\<close>.
\<close>

type_synonym js_number = "rat option"

definition math_round :: "rat \<Rightarrow> int" where
  \<comment> \<open>\<open>Math.round\<close>: the nearest integer, a tie going up.\<close>
  "math_round x = \<lfloor>x + 1 / 2\<rfloor>"

definition round_tenth :: "rat \<Rightarrow> rat" where
  \<comment> \<open>\<open>Math.round(x * 10) / 10\<close>\<close>
  "round_tenth x = of_int (math_round (x * 10)) / 10"

definition js_or_num :: "rat option \<Rightarrow> rat \<Rightarrow> rat" where
  \<comment> \<open>\<open>v || d\<close> for a number that may be missing: \<open>undefined\<close> and \<open>0\<close> are falsy.\<close>
  "js_or_num v d = (case v of None \<Rightarrow> d | Some x \<Rightarrow> if x = 0 then d else x)"

definition js_or_str :: "string option \<Rightarrow> string \<Rightarrow> string" where
  \<comment> \<open>\<open>v || d\<close> for a string that may be missing: \<open>undefined\<close> and \<open>""\<close> are falsy.\<close>
  "js_or_str v d = (case v of None \<Rightarrow> d | Some s \<Rightarrow> if s = [] then d else s)"

definition clamp_score :: "rat \<Rightarrow> rat" where
  \<comment> \<open>\<open>Math.min(100, Math.max(0, x))\<close>\<close>
  "clamp_score x = min 100 (max 0 x)"

definition jsonMatch :: "string \<Rightarrow> string option" where
  \<comment> \<open>\<open>content.match(/\[[\s\S]*\]/)\<close>: from the first \<open>[\<close> to the last \<open>]\<close> after it.\<close>
  "jsonMatch content =
     (let rest = dropWhile (\<lambda>c. c \<noteq> CHR ''['') content
      in if CHR '']'' \<in> set rest
         then Some (rev (dropWhile (\<lambda>c. c \<noteq> CHR '']'') (rev rest)))
         else None)"

section \<open>The feedback handler (generate-feedback)\<close>

record question =
  q_text :: string
  q_answer :: "string option"

record qa =
  qa_question :: string
  qa_answer :: string

record evaluation =
  relevance :: rat
  clarity :: rat
  grammar :: rat
  confidence :: rat
  feedback :: string

record answer_row =
  interview_id :: string
  question :: string
  answer :: string
  relevance_score :: rat
  clarity_score :: rat
  grammar_score :: rat
  confidence_score :: rat
  row_feedback :: string

definition answersToEvaluate :: "question list \<Rightarrow> qa list" where
  "answersToEvaluate questions =
     map (\<lambda>q. \<lparr>qa_question = q_text q, qa_answer = js_or_str (q_answer q) []\<rparr>) questions"

definition fallback_evaluation :: evaluation where
  "fallback_evaluation =
     \<lparr>relevance = 70, clarity = 70, grammar = 75, confidence = 65,
      feedback = ''Good attempt! Consider providing more specific examples.''\<rparr>"

definition padding_evaluation :: evaluation where
  "padding_evaluation =
     \<lparr>relevance = 70, clarity = 70, grammar = 75, confidence = 65,
      feedback = ''Consider elaborating more on your response.''\<rparr>"

text \<open>
  \<open>JSON.parse\<close> is a parameter: \<open>None\<close> is a thrown SyntaxError, and a result is taken
  at the type the handler declares for it, an array of evaluations.
\<close>

definition parse_evaluations ::
  "(string \<Rightarrow> evaluation list option) \<Rightarrow> string \<Rightarrow> qa list \<Rightarrow> evaluation list" where
  "parse_evaluations JSON_parse content qas =
     (case jsonMatch content of
        Some m \<Rightarrow>
          (case JSON_parse m of
             Some evs \<Rightarrow> evs
           | None \<Rightarrow> map (\<lambda>_. fallback_evaluation) qas)
      | None \<Rightarrow> map (\<lambda>_. fallback_evaluation) qas)"

function pad_evaluations :: "evaluation list \<Rightarrow> nat \<Rightarrow> evaluation list" where
  "pad_evaluations evaluations n =
     (if length evaluations < n
      then pad_evaluations (evaluations @ [padding_evaluation]) n
      else evaluations)"
  by pat_completeness auto
termination
  by (relation "measure (\<lambda>(evs, n). n - length evs)") auto

declare pad_evaluations.simps [simp del]

definition eval_at :: "evaluation list \<Rightarrow> nat \<Rightarrow> evaluation option" where
  \<comment> \<open>\<open>evaluations[index]\<close>, \<open>undefined\<close> out of range\<close>
  "eval_at evaluations index =
     (if index < length evaluations then Some (evaluations ! index) else None)"

definition answersToInsert :: "string \<Rightarrow> qa list \<Rightarrow> evaluation list \<Rightarrow> answer_row list" where
  "answersToInsert interviewId qas evaluations =
     map (\<lambda>(index, a).
            \<lparr>interview_id = interviewId,
             question = qa_question a,
             answer = qa_answer a,
             relevance_score =
               clamp_score (js_or_num (map_option relevance (eval_at evaluations index)) 70),
             clarity_score =
               clamp_score (js_or_num (map_option clarity (eval_at evaluations index)) 70),
             grammar_score =
               clamp_score (js_or_num (map_option grammar (eval_at evaluations index)) 75),
             confidence_score =
               clamp_score (js_or_num (map_option confidence (eval_at evaluations index)) 65),
             row_feedback =
               js_or_str (map_option feedback (eval_at evaluations index)) ''Good effort!''\<rparr>)
         (enumerate 0 qas)"

definition answer_average :: "evaluation \<Rightarrow> rat" where
  "answer_average e = (relevance e + clarity e + grammar e + confidence e) / 4"

definition overallScore_before_penalty :: "evaluation list \<Rightarrow> js_number" where
  \<comment> \<open>the reduce over the evaluations, divided by their number; \<open>0 / 0\<close> is NaN\<close>
  "overallScore_before_penalty evaluations =
     (if evaluations = [] then None
      else Some (foldl (\<lambda>acc e. acc + answer_average e) 0 evaluations
                 / of_nat (length evaluations)))"

definition apply_penalty :: "js_number \<Rightarrow> rat \<Rightarrow> js_number" where
  \<comment> \<open>\<open>if (scorePenalty > 0) overallScore = Math.max(0, overallScore - scorePenalty)\<close>\<close>
  "apply_penalty overallScore scorePenalty =
     (if scorePenalty > 0
      then map_option (\<lambda>x. max 0 (x - scorePenalty)) overallScore
      else overallScore)"

definition overallScore :: "evaluation list \<Rightarrow> rat \<Rightarrow> js_number" where
  "overallScore evaluations scorePenalty =
     apply_penalty (overallScore_before_penalty evaluations) scorePenalty"

definition persisted_overall_score :: "evaluation list \<Rightarrow> rat \<Rightarrow> js_number" where
  \<comment> \<open>the \<open>overall_score\<close> of the update\<close>
  "persisted_overall_score evaluations scorePenalty =
     map_option round_tenth (overallScore evaluations scorePenalty)"

definition returned_overall_score :: "evaluation list \<Rightarrow> rat \<Rightarrow> int option" where
  \<comment> \<open>the \<open>overallScore\<close> of the response body\<close>
  "returned_overall_score evaluations scorePenalty =
     map_option math_round (overallScore evaluations scorePenalty)"







subsection \<open>The handler's request, environment and persistence\<close>

text \<open>
  The oracle is the hosted language-model gateway: \<open>oracle n\<close> is what the \<open>n\<close>-th
  \<open>fetch\<close> of the deployment gets, and the store counts the fetches made. The content of
  a reply is what \<open>data.choices?.[0]?.message?.content || ""\<close> evaluates to. A failure of
  the persistence collaborator is an input of the invocation, with the message the
  handler's catch clause reports for it.
\<close>

datatype fetch_result = NetworkError string | HttpResponse nat string

datatype body =
  ErrorBody string
  | QuestionsBody "string list"
  | FeedbackBody bool "int option"

record http_response =
  status :: nat
  body :: body

record interview_row =
  iv_id :: string
  iv_user_id :: string
  iv_role :: string
  overall_score :: js_number
  iv_status :: string
  completed_at :: "string option"

record store =
  fetches :: nat
  interviews :: "interview_row list"
  answers :: "answer_row list"
  resumes :: "string list"

record feedback_request =
  req_interviewId :: string
  req_questions :: "question list"
  req_role :: string
  req_scorePenalty :: rat
  req_tabSwitchCount :: nat
  req_deviceWarningCount :: nat

record feedback_env =
  fb_api_key :: "string option"
  fb_oracle :: "nat \<Rightarrow> fetch_result"
  fb_JSON_parse :: "string \<Rightarrow> evaluation list option"
  fb_insert_error :: "string option"
  fb_update_error :: "string option"
  fb_now :: string

fun digits :: "nat \<Rightarrow> string" where
  "digits n =
     (if n < 10 then [char_of (48 + n)]
      else digits (n div 10) @ [char_of (48 + n mod 10)])"

declare digits.simps [simp del]

definition response_ok :: "nat \<Rightarrow> bool" where
  \<comment> \<open>\<open>response.ok\<close>\<close>
  "response_ok st = (200 \<le> st \<and> st \<le> 299)"

definition server_error :: "string \<Rightarrow> http_response" where
  \<comment> \<open>the response of the outer catch clause\<close>
  "server_error msg = \<lparr>status = 500, body = ErrorBody msg\<rparr>"

definition rate_limited :: http_response where
  "rate_limited =
     \<lparr>status = 429, body = ErrorBody ''Rate limit exceeded. Please try again later.''\<rparr>"

definition quota_exhausted :: http_response where
  "quota_exhausted =
     \<lparr>status = 402, body = ErrorBody ''AI credits exhausted. Please add more credits.''\<rparr>"

definition not_ok_response :: "nat \<Rightarrow> http_response" where
  \<comment> \<open>the branch \<open>if (!response.ok)\<close>, the same in both handlers\<close>
  "not_ok_response st =
     (if st = 429 then rate_limited
      else if st = 402 then quota_exhausted
      else server_error (''AI gateway error: '' @ digits st))"

definition update_interview :: "string \<Rightarrow> js_number \<Rightarrow> string \<Rightarrow> interview_row list \<Rightarrow> interview_row list" where
  \<comment> \<open>\<open>.update({overall_score, status, completed_at}).eq("id", interviewId)\<close>\<close>
  "update_interview interviewId score now rows =
     map (\<lambda>r. if iv_id r = interviewId
              then r\<lparr>overall_score := score, iv_status := ''completed'', completed_at := Some now\<rparr>
              else r) rows"

definition evaluations_of :: "feedback_env \<Rightarrow> string \<Rightarrow> qa list \<Rightarrow> evaluation list" where
  \<comment> \<open>the evaluations after parsing, fallback and padding\<close>
  "evaluations_of env content qas =
     pad_evaluations (parse_evaluations (fb_JSON_parse env) content qas) (length qas)"

definition generate_feedback :: "feedback_env \<Rightarrow> feedback_request \<Rightarrow> store \<Rightarrow> http_response \<times> store" where
  "generate_feedback env req w =
     (case fb_api_key env of
        None \<Rightarrow> (server_error ''LOVABLE_API_KEY is not configured'', w)
      | Some key \<Rightarrow>
          let qas = answersToEvaluate (req_questions req);
              w1 = w\<lparr>fetches := Suc (fetches w)\<rparr>
          in (case fb_oracle env (fetches w) of
                NetworkError msg \<Rightarrow> (server_error msg, w1)
              | HttpResponse st content \<Rightarrow>
                  if \<not> response_ok st then (not_ok_response st, w1)
                  else
                    let evaluations = evaluations_of env content qas;
                        rows = answersToInsert (req_interviewId req) qas evaluations
                    in (case fb_insert_error env of
                          Some msg \<Rightarrow> (server_error msg, w1)
                        | None \<Rightarrow>
                            let w2 = w1\<lparr>answers := answers w1 @ rows\<rparr>
                            in (case fb_update_error env of
                                  Some msg \<Rightarrow> (server_error msg, w2)
                                | None \<Rightarrow>
                                    (\<lparr>status = 200,
                                      body = FeedbackBody True
                                        (returned_overall_score evaluations (req_scorePenalty req))\<rparr>,
                                     w2\<lparr>interviews :=
                                          update_interview (req_interviewId req)
                                            (persisted_overall_score evaluations (req_scorePenalty req))
                                            (fb_now env) (interviews w2)\<rparr>)))))"

section \<open>The question handler (generate-questions)\<close>

text \<open>
  Characters stand for the code units below 256. \<open>is_space\<close> is what \<open>trim\<close> and \<open>\s\<close>
  remove there.
\<close>

definition is_space :: "char \<Rightarrow> bool" where
  "is_space c = (of_char c \<in> {9, 10, 11, 12, 13, 32, 160 :: nat})"

definition is_digit :: "char \<Rightarrow> bool" where
  "is_digit c = (48 \<le> (of_char c :: nat) \<and> (of_char c :: nat) \<le> 57)"

definition trim :: "string \<Rightarrow> string" where
  "trim s = rev (dropWhile is_space (rev (dropWhile is_space s)))"

fun split_lines :: "string \<Rightarrow> string list" where
  \<comment> \<open>\<open>content.split("\n")\<close>\<close>
  "split_lines [] = [[]]"
| "split_lines (c # cs) =
     (if c = CHR 0x0A then [] # split_lines cs
      else (case split_lines cs of [] \<Rightarrow> [[c]] | l # ls \<Rightarrow> (c # l) # ls))"

definition strip_number :: "string \<Rightarrow> string" where
  \<comment> \<open>\<open>replace(/^\d+\.\s*/, "")\<close>\<close>
  "strip_number s =
     (let ds = takeWhile is_digit s; rest = dropWhile is_digit s
      in if ds \<noteq> [] \<and> rest \<noteq> [] \<and> hd rest = CHR ''.''
         then dropWhile is_space (tl rest) else s)"

definition strip_bullet :: "string \<Rightarrow> string" where
  \<comment> \<open>\<open>replace(/^[-*]\s*/, "")\<close>\<close>
  "strip_bullet s =
     (case s of
        [] \<Rightarrow> []
      | c # cs \<Rightarrow> if c = CHR ''-'' \<or> c = CHR ''*'' then dropWhile is_space cs else s)"

definition questions_from_lines :: "string \<Rightarrow> string list" where
  "questions_from_lines content =
     map (\<lambda>q. trim (strip_bullet (strip_number q)))
       (take 5 (filter (\<lambda>line. length (trim line) > 10) (split_lines content)))"

definition fallbackSets :: "string list list" where
  "fallbackSets =
     [[''What drew you to this career path?'',
       ''Describe your approach to solving complex problems.'',
       ''How do you prioritize competing deadlines?'',
       ''Tell me about a time you led a team.'',
       ''What's your biggest professional achievement?''],
      [''What excites you most about this role?'',
       ''How do you handle constructive criticism?'',
       ''Describe a project that challenged you.'',
       ''How do you stay updated with industry trends?'',
       ''What would you change about your last project?''],
      [''Why are you passionate about this field?'',
       ''How do you approach learning new skills?'',
       ''Tell me about a failure and what you learned.'',
       ''How do you collaborate with remote teams?'',
       ''What metrics do you use to measure success?'']]"

definition filler_question :: string where
  "filler_question = ''What unique perspective would you bring to our team?''"

definition parse_questions :: "(string \<Rightarrow> string list option) \<Rightarrow> nat \<Rightarrow> string \<Rightarrow> string list" where
  "parse_questions JSON_parse randomSeed content =
     (case jsonMatch content of
        Some m \<Rightarrow>
          (case JSON_parse m of
             Some qs \<Rightarrow> qs
           | None \<Rightarrow> fallbackSets ! (randomSeed mod 3))
      | None \<Rightarrow> questions_from_lines content)"

function pad_questions :: "string list \<Rightarrow> string list" where
  "pad_questions questions =
     (if length questions < 5
      then pad_questions (questions @ [filler_question])
      else questions)"
  by pat_completeness auto
termination
  by (relation "measure (\<lambda>qs. 5 - length qs)") auto

declare pad_questions.simps [simp del]

definition five_questions :: "(string \<Rightarrow> string list option) \<Rightarrow> nat \<Rightarrow> string \<Rightarrow> string list" where
  \<comment> \<open>the questions of the response: parsed or fallback, padded, then \<open>slice(0, 5)\<close>\<close>
  "five_questions JSON_parse randomSeed content =
     take 5 (pad_questions (parse_questions JSON_parse randomSeed content))"

record questions_request =
  qr_role :: string
  qr_resumeText :: string
  qr_previousQuestions :: "string list"

record questions_env =
  qs_api_key :: "string option"
  qs_oracle :: "nat \<Rightarrow> fetch_result"
  qs_JSON_parse :: "string \<Rightarrow> string list option"
  qs_date_now :: nat

definition generate_questions :: "questions_env \<Rightarrow> questions_request \<Rightarrow> store \<Rightarrow> http_response \<times> store" where
  "generate_questions env req w =
     (case qs_api_key env of
        None \<Rightarrow> (server_error ''LOVABLE_API_KEY is not configured'', w)
      | Some key \<Rightarrow>
          let randomSeed = qs_date_now env mod 10000;
              w1 = w\<lparr>fetches := Suc (fetches w)\<rparr>
          in (case qs_oracle env (fetches w) of
                NetworkError msg \<Rightarrow> (server_error msg, w1)
              | HttpResponse st content \<Rightarrow>
                  if \<not> response_ok st then (not_ok_response st, w1)
                  else (\<lparr>status = 200,
                         body = QuestionsBody
                           (five_questions (qs_JSON_parse env) randomSeed content)\<rparr>, w1)))"


definition row_scores :: "answer_row \<Rightarrow> rat \<times> rat \<times> rat \<times> rat" where
  "row_scores r = (relevance_score r, clarity_score r, grammar_score r, confidence_score r)"

section \<open>The proctoring sampler (useDeviceDetection)\<close>

definition SUSPICIOUS_OBJECTS :: "string list" where
  "SUSPICIOUS_OBJECTS =
     [''cell phone'', ''mobile phone'', ''book'', ''laptop'', ''remote'', ''tablet'', ''computer'']"

record prediction =
  p_label :: string
  p_score :: rat

record detected_device =
  dd_class :: string
  dd_score :: rat
  dd_timestamp :: int

record detection =
  isModelLoaded :: bool
  isDetecting :: bool
  has_detector :: bool
  detectedDevices :: "detected_device list"
  deviceWarningCount :: nat
  showDeviceWarning :: bool
  currentDeviceWarning :: "string option"
  lastWarningTime :: int

definition lower_char :: "char \<Rightarrow> char" where
  "lower_char c =
     (let n = (of_char c :: nat)
      in if (65 \<le> n \<and> n \<le> 90) \<or> (192 \<le> n \<and> n \<le> 222 \<and> n \<noteq> 215)
         then char_of (n + 32) else c)"

definition toLowerCase :: "string \<Rightarrow> string" where
  "toLowerCase s = map lower_char s"

fun str_includes :: "string \<Rightarrow> string \<Rightarrow> bool" where
  "str_includes [] sub = (sub = [])"
| "str_includes (c # cs) sub = (take (length sub) (c # cs) = sub \<or> str_includes cs sub)"

definition is_suspicious :: "prediction \<Rightarrow> bool" where
  \<comment> \<open>a missing label reads as the empty label, which includes none of the objects\<close>
  "is_suspicious pred =
     (list_ex (\<lambda>obj. str_includes (toLowerCase (p_label pred)) obj) SUSPICIOUS_OBJECTS
      \<and> p_score pred > 1 / 2)"

definition uniq :: "string list \<Rightarrow> string list" where
  \<comment> \<open>\<open>[...new Set(xs)]\<close>: the first occurrence of each, in order\<close>
  "uniq xs = foldl (\<lambda>acc x. if x \<in> set acc then acc else acc @ [x]) [] xs"

definition find_score :: "prediction list \<Rightarrow> string \<Rightarrow> rat option" where
  \<comment> \<open>\<open>items.find(i => i.label === name)?.score\<close>\<close>
  "find_score items name =
     (case filter (\<lambda>i. p_label i = name) items of [] \<Rightarrow> None | i # _ \<Rightarrow> Some (p_score i))"

fun join :: "string \<Rightarrow> string list \<Rightarrow> string" where
  "join sep [] = []"
| "join sep [x] = x"
| "join sep (x # y # ys) = x @ sep @ join sep (y # ys)"

text \<open>
  One run of \<open>detectObjects\<close>: \<open>frame_ready\<close> says that the video and the canvas are there,
  the video has data and the canvas a context; \<open>predictions\<close> is the detector's answer for
  the frame, \<open>None\<close> when it throws; \<open>now\<close> is \<open>Date.now()\<close> in milliseconds.
\<close>

definition detectObjects :: "bool \<Rightarrow> prediction list option \<Rightarrow> int \<Rightarrow> detection \<Rightarrow> detection" where
  "detectObjects frame_ready predictions now d =
     (if \<not> has_detector d \<or> \<not> frame_ready then d
      else
        (case predictions of
           None \<Rightarrow> d
         | Some preds \<Rightarrow>
             let suspiciousItems = filter is_suspicious preds
             in if length suspiciousItems > 0
                then
                  (if now - lastWarningTime d > 5000
                   then
                     let deviceNames = uniq (map p_label suspiciousItems)
                     in d\<lparr>detectedDevices := detectedDevices d @
                            map (\<lambda>name. \<lparr>dd_class = name,
                                         dd_score = js_or_num (find_score suspiciousItems name) 0,
                                         dd_timestamp = now\<rparr>) deviceNames,
                          deviceWarningCount := deviceWarningCount d + 1,
                          currentDeviceWarning := Some (join '', '' deviceNames),
                          showDeviceWarning := True,
                          lastWarningTime := now\<rparr>
                   else d)
                else d))"

definition startDetection :: "detection \<Rightarrow> detection" where
  "startDetection d =
     (if \<not> isModelLoaded d \<or> isDetecting d \<or> \<not> has_detector d then d
      else d\<lparr>isDetecting := True\<rparr>)"

definition stopDetection :: "detection \<Rightarrow> detection" where
  "stopDetection d = d\<lparr>isDetecting := False\<rparr>"

definition dismissWarning :: "detection \<Rightarrow> detection" where
  "dismissWarning d = d\<lparr>showDeviceWarning := False, currentDeviceWarning := None\<rparr>"

section \<open>The session state machine (Interview page)\<close>

datatype step = Role | Interview | Submitting

record client =
  c_step :: step
  selectedRole :: string
  c_questions :: "question list"
  currentQuestion :: nat
  currentAnswer :: string
  isGenerating :: bool
  c_interviewId :: string
  c_userId :: string
  resumeFile :: "string option"
  cameraEnabled :: bool
  tabSwitchCount :: nat
  showTabWarning :: bool
  scorePenalty :: nat
  detection :: detection
  toasts :: "(string \<times> string) list"
  location :: string

text \<open>
  The page keeps its React state in one record, with the state of the detection hook inside
  it; \<open>toasts\<close> collects the notifications shown (title and description, the titles
  without their pictographs) and \<open>location\<close> is the route.
\<close>

definition toast :: "string \<Rightarrow> string \<Rightarrow> client \<Rightarrow> client" where
  "toast title description c = c\<lparr>toasts := toasts c @ [(title, description)]\<rparr>"

definition device_penalty_effect :: "client \<Rightarrow> client" where
  \<comment> \<open>the body of the effect "apply penalty when device is detected"\<close>
  "device_penalty_effect c =
     (if deviceWarningCount (detection c) > 0 \<and> c_step c = Interview
      then toast ''External Device Detected!''
             ''Suspicious device detected. 10% score penalty applied.''
             (c\<lparr>scorePenalty := scorePenalty c + 10\<rparr>)
      else c)"

definition rerender :: "client \<Rightarrow> client \<Rightarrow> client" where
  \<comment> \<open>a render after the state went from \<open>old\<close> to \<open>new\<close>: the effect runs when one of
      its dependencies \<open>deviceWarningCount\<close>, \<open>step\<close> changed (\<open>toast\<close> never does)\<close>
  "rerender old new =
     (if deviceWarningCount (detection new) \<noteq> deviceWarningCount (detection old)
         \<or> c_step new \<noteq> c_step old
      then device_penalty_effect new else new)"

definition handleVisibilityChange :: "bool \<Rightarrow> client \<Rightarrow> client" where
  \<comment> \<open>the listener is registered only while \<open>step\<close> is \<open>interview\<close>; \<open>hidden\<close> is
      \<open>document.hidden\<close>\<close>
  "handleVisibilityChange hidden c =
     (if c_step c = Interview \<and> hidden
      then toast ''Tab Switch Detected!''
             (''You switched tabs. 5% score penalty applied. Total switches: ''
                @ digits (tabSwitchCount c + 1))
             (c\<lparr>tabSwitchCount := tabSwitchCount c + 1,
                scorePenalty := scorePenalty c + 5,
                showTabWarning := True\<rparr>)
      else c)"

definition detectionTick :: "bool \<Rightarrow> prediction list option \<Rightarrow> int \<Rightarrow> client \<Rightarrow> client" where
  \<comment> \<open>one run of the sampler inside the page, and the render that follows\<close>
  "detectionTick frame_ready predictions now c =
     rerender c (c\<lparr>detection := detectObjects frame_ready predictions now (detection c)\<rparr>)"

definition startCamera :: "bool \<Rightarrow> client \<Rightarrow> client" where
  \<comment> \<open>\<open>granted\<close>: whether \<open>getUserMedia\<close> resolves; the detection starts from a timer\<close>
  "startCamera granted c =
     (if granted
      then toast ''Camera enabled''
             ''Your interview is now being proctored with AI device detection.''
             (c\<lparr>cameraEnabled := True\<rparr>)
      else toast ''Camera access denied''
             ''Please enable camera access for proctored interviews.'' c)"

definition stopCamera :: "client \<Rightarrow> client" where
  "stopCamera c = c\<lparr>cameraEnabled := False, detection := stopDetection (detection c)\<rparr>"

definition invoke_data :: "http_response \<Rightarrow> body option" where
  \<comment> \<open>\<open>supabase.functions.invoke\<close>: the data of a 2xx response, an error otherwise\<close>
  "invoke_data r = (if response_ok (status r) then Some (body r) else None)"

record start_env =
  upload_fails :: bool
  upload_time :: nat
  interview_insert :: "string + string"
  questions_env :: questions_env
  camera_granted :: bool

definition uploadResume :: "start_env \<Rightarrow> client \<Rightarrow> store \<Rightarrow> string option \<times> store" where
  "uploadResume env c w =
     (case resumeFile c of
        None \<Rightarrow> (None, w)
      | Some name \<Rightarrow>
          if c_userId c = [] then (None, w)
          else if upload_fails env then (None, w)
          else (Some name,
                w\<lparr>resumes := resumes w @
                     [c_userId c @ ''/'' @ digits (upload_time env) @ ''-'' @ name]\<rparr>))"

definition generating_failed :: "client \<Rightarrow> client" where
  \<comment> \<open>the catch and finally clauses of \<open>generateQuestions\<close>\<close>
  "generating_failed c =
     (toast ''Error'' ''Failed to generate questions. Please try again.'' c)
       \<lparr>isGenerating := False\<rparr>"

definition generateQuestions :: "start_env \<Rightarrow> client \<Rightarrow> store \<Rightarrow> client \<times> store" where
  "generateQuestions env c w =
     (let c0 = c\<lparr>isGenerating := True\<rparr>;
          (uploadedName, w0) =
             (case resumeFile c of None \<Rightarrow> (None, w) | Some f \<Rightarrow> uploadResume env c w);
          resumeText =
             (case uploadedName of
                None \<Rightarrow> []
              | Some n \<Rightarrow> if n = [] then [] else ''Resume uploaded: '' @ n)
      in (case interview_insert env of
            Inl interviewError \<Rightarrow> (generating_failed c0, w0)
          | Inr new_id \<Rightarrow>
              let w1 = w0\<lparr>interviews := interviews w0 @
                          [\<lparr>iv_id = new_id, iv_user_id = c_userId c, iv_role = selectedRole c,
                            overall_score = Some 0, iv_status = ''in_progress'',
                            completed_at = None\<rparr>]\<rparr>;
                  c1 = c0\<lparr>c_interviewId := new_id\<rparr>;
                  (resp, w2) =
                     generate_questions (questions_env env)
                       \<lparr>qr_role = selectedRole c, qr_resumeText = resumeText,
                        qr_previousQuestions = []\<rparr> w1
              in (case invoke_data resp of
                    Some (QuestionsBody qs) \<Rightarrow>
                      let c2 = rerender c1
                                 (c1\<lparr>c_questions := map (\<lambda>q. \<lparr>q_text = q, q_answer = None\<rparr>) qs,
                                     c_step := Interview\<rparr>);
                          c3 = startCamera (camera_granted env) c2
                      in (c3\<lparr>isGenerating := False\<rparr>, w2)
                  | _ \<Rightarrow> (generating_failed c1, w2))))"

definition submission_body :: "client \<Rightarrow> question list \<Rightarrow> feedback_request" where
  \<comment> \<open>the body \<open>submitInterview\<close> sends to generate-feedback\<close>
  "submission_body c finalQuestions =
     \<lparr>req_interviewId = c_interviewId c, req_questions = finalQuestions,
      req_role = selectedRole c, req_scorePenalty = of_nat (scorePenalty c),
      req_tabSwitchCount = tabSwitchCount c,
      req_deviceWarningCount = deviceWarningCount (detection c)\<rparr>"

definition submitInterview :: "feedback_env \<Rightarrow> question list \<Rightarrow> client \<Rightarrow> store \<Rightarrow> client \<times> store" where
  "submitInterview env finalQuestions c w =
     (let c1 = rerender c (stopCamera (c\<lparr>c_step := Submitting\<rparr>));
          (resp, w') = generate_feedback env (submission_body c finalQuestions) w
      in (case invoke_data resp of
            Some data \<Rightarrow> (c1\<lparr>location := ''/feedback/'' @ c_interviewId c\<rparr>, w')
          | None \<Rightarrow>
              let c2 = toast ''Error'' ''Failed to submit interview. Please try again.'' c1
              in (rerender c2 (c2\<lparr>c_step := Interview\<rparr>), w')))"

definition updatedQuestions :: "client \<Rightarrow> question list" where
  \<comment> \<open>the questions with the current answer saved into the current question\<close>
  "updatedQuestions c =
     (c_questions c)[currentQuestion c :=
        (c_questions c ! currentQuestion c)\<lparr>q_answer := Some (currentAnswer c)\<rparr>]"

definition handleNext :: "feedback_env \<Rightarrow> client \<Rightarrow> store \<Rightarrow> client \<times> store" where
  \<comment> \<open>with no current question the assignment throws and nothing is set\<close>
  "handleNext env c w =
     (if currentQuestion c < length (c_questions c)
      then
        let c1 = c\<lparr>c_questions := updatedQuestions c\<rparr>
        in if currentQuestion c + 1 < length (c_questions c)
           then (c1\<lparr>currentQuestion := currentQuestion c + 1, currentAnswer := []\<rparr>, w)
           else submitInterview env (updatedQuestions c) c1 w
      else (c, w))"

text \<open>The events of a session, and a session as a run of events.\<close>

datatype event =
  VisibilityChange bool
  | DetectionTick bool "prediction list option" int
  | Next feedback_env

fun apply_event :: "client \<times> store \<Rightarrow> event \<Rightarrow> client \<times> store" where
  "apply_event (c, w) (VisibilityChange hidden) = (handleVisibilityChange hidden c, w)"
| "apply_event (c, w) (DetectionTick frame_ready predictions now) =
     (detectionTick frame_ready predictions now c, w)"
| "apply_event (c, w) (Next env) = handleNext env c w"

definition run_events :: "client \<times> store \<Rightarrow> event list \<Rightarrow> client \<times> store" where
  "run_events cw evs = foldl apply_event cw evs"

definition ledger_invariant :: "client \<Rightarrow> bool" where
  "ledger_invariant c =
     (scorePenalty c = 5 * tabSwitchCount c + 10 * deviceWarningCount (detection c))"

section \<open>Example inputs\<close>

text \<open>
  Environments in which the oracle gives the same answer to every fetch, the key is
  configured, and \<open>JSON.parse\<close> is given as a finite table from texts to values (it throws
  on every other text).
\<close>

definition feedback_env_of ::
  "fetch_result \<Rightarrow> (string \<Rightarrow> evaluation list option) \<Rightarrow> string option \<Rightarrow> string option
   \<Rightarrow> feedback_env" where
  "feedback_env_of r parse insert_error update_error =
     \<lparr>fb_api_key = Some ''key'', fb_oracle = (\<lambda>n. r), fb_JSON_parse = parse,
      fb_insert_error = insert_error, fb_update_error = update_error,
      fb_now = ''2026-01-01T00:00:00.000Z''\<rparr>"

definition questions_env_of ::
  "fetch_result \<Rightarrow> (string \<Rightarrow> string list option) \<Rightarrow> nat \<Rightarrow> questions_env" where
  "questions_env_of r parse now =
     \<lparr>qs_api_key = Some ''key'', qs_oracle = (\<lambda>n. r), qs_JSON_parse = parse,
      qs_date_now = now\<rparr>"

definition one_interview :: store where
  \<comment> \<open>a store holding the interview \<open>iv1\<close> in progress\<close>
  "one_interview =
     \<lparr>fetches = 0,
      interviews = [\<lparr>iv_id = ''iv1'', iv_user_id = ''u1'', iv_role = ''data-analyst'',
                     overall_score = Some 0, iv_status = ''in_progress'',
                     completed_at = None\<rparr>],
      answers = [], resumes = []\<rparr>"

definition one_answer :: feedback_request where
  \<comment> \<open>the request of a one-question interview with no penalty\<close>
  "one_answer =
     \<lparr>req_interviewId = ''iv1'',
      req_questions = [\<lparr>q_text = ''Why SQL?'', q_answer = Some ''Joins.''\<rparr>],
      req_role = ''data-analyst'', req_scorePenalty = 0,
      req_tabSwitchCount = 0, req_deviceWarningCount = 0\<rparr>"

definition negative_reply :: string where
  \<open>negative_reply =
     ''[{"relevance":-40,"clarity":-40,"grammar":-40,"confidence":-40,"feedback":"Weak."}]''\<close>

definition negative_evaluations :: "evaluation list" where
  "negative_evaluations =
     [\<lparr>relevance = - 40, clarity = - 40, grammar = - 40, confidence = - 40,
       feedback = ''Weak.''\<rparr>]"

definition half_reply :: string where
  \<open>half_reply =
     ''[{"relevance":70,"clarity":70,"grammar":75,"confidence":75,"feedback":"Fine."}]''\<close>

definition half_evaluations :: "evaluation list" where
  "half_evaluations =
     [\<lparr>relevance = 70, clarity = 70, grammar = 75, confidence = 75, feedback = ''Fine.''\<rparr>]"

definition analyst_request :: questions_request where
  "analyst_request =
     \<lparr>qr_role = ''data-analyst'', qr_resumeText = [], qr_previousQuestions = []\<rparr>"

definition two_answers :: feedback_request where
  \<comment> \<open>the request of a two-question interview with no penalty\<close>
  "two_answers =
     \<lparr>req_interviewId = ''iv1'',
      req_questions = [\<lparr>q_text = ''Why SQL?'', q_answer = Some ''Joins.''\<rparr>,
                       \<lparr>q_text = ''Why Python?'', q_answer = None\<rparr>],
      req_role = ''data-analyst'', req_scorePenalty = 0,
      req_tabSwitchCount = 0, req_deviceWarningCount = 0\<rparr>"



definition broken_reply :: string where
  \<open>broken_reply = ''["Why SQL?", "Why Python?"''\<close>


definition idle_sampler :: detection where
  \<comment> \<open>the sampler with its model loaded, before any warning\<close>
  "idle_sampler =
     \<lparr>isModelLoaded = True, isDetecting = True, has_detector = True, detectedDevices = [],
      deviceWarningCount = 0, showDeviceWarning = False, currentDeviceWarning = None,
      lastWarningTime = 0\<rparr>"

definition phone_seen :: "prediction list" where
  "phone_seen = [\<lparr>p_label = ''cell phone'', p_score = 9 / 10\<rparr>,
                 \<lparr>p_label = ''person'', p_score = 99 / 100\<rparr>]"

definition role_client :: client where
  \<comment> \<open>the page with a role selected, before the interview starts\<close>
  "role_client =
     \<lparr>c_step = Role, selectedRole = ''data-analyst'', c_questions = [], currentQuestion = 0,
      currentAnswer = [], isGenerating = False, c_interviewId = [], c_userId = ''u1'',
      resumeFile = None, cameraEnabled = False, tabSwitchCount = 0, showTabWarning = False,
      scorePenalty = 0, detection = idle_sampler, toasts = [], location = ''/interview''\<rparr>"

definition last_question_client :: client where
  \<comment> \<open>the page at the last question of the interview \<open>iv1\<close>, its answer typed\<close>
  "last_question_client =
     role_client
       \<lparr>c_step := Interview,
        c_questions := [\<lparr>q_text = ''Why SQL?'', q_answer = Some ''Joins.''\<rparr>,
                        \<lparr>q_text = ''Why Python?'', q_answer = None\<rparr>],
        currentQuestion := 1, currentAnswer := ''Pandas.'', c_interviewId := ''iv1'',
        cameraEnabled := True\<rparr>"

definition empty_store :: store where
  "empty_store = \<lparr>fetches = 0, interviews = [], answers = [], resumes = []\<rparr>"

definition rate_limited_start :: start_env where
  \<comment> \<open>a start of the interview in which the oracle answers 429\<close>
  "rate_limited_start =
     \<lparr>upload_fails = False, upload_time = 1767225600004, interview_insert = Inr ''iv2'',
      questions_env = questions_env_of (HttpResponse 429 []) Map.empty 1767225600004,
      camera_granted = True\<rparr>"

definition new_year :: int where
  \<comment> \<open>a reading of \<open>Date.now()\<close>\<close>
  "new_year = 1767225600000"

section \<open>Properties of the score aggregation\<close>








lemma floor_rat_numeral:
  "\<lfloor>numeral a / numeral b :: rat\<rfloor> = numeral a div numeral b"
  using floor_divide_of_int_eq [of "numeral a" "numeral b", where ?'a = rat] by simp

lemma floor_rat_minus_numeral:
  "\<lfloor>- (numeral a / numeral b) :: rat\<rfloor> = - numeral a div numeral b"
  using floor_divide_of_int_eq [of "- numeral a" "numeral b", where ?'a = rat] by simp

lemmas round_eval = round_tenth_def math_round_def floor_rat_numeral floor_rat_minus_numeral





section \<open>Properties of the feedback handler\<close>

lemma jsonMatch_whole:
  assumes "content \<noteq> []" "hd content = CHR ''[''" "last content = CHR '']''"
  shows "jsonMatch content = Some content"
proof -
  have d1: "dropWhile (\<lambda>c. c \<noteq> CHR ''['') content = content"
    using assms(1,2) by (cases content) auto
  have l: "CHR '']'' \<in> set content"
    using assms(1,3) last_in_set by metis
  have "hd (rev content) = CHR '']''"
    using assms(1,3) by (simp add: hd_rev)
  then have d2: "dropWhile (\<lambda>c. c \<noteq> CHR '']'') (rev content) = rev content"
    using assms(1) by (cases "rev content") auto
  show ?thesis
    by (simp add: jsonMatch_def d1 d2 l)
qed

lemma negative_match: "jsonMatch negative_reply = Some negative_reply"
  by (rule jsonMatch_whole) (simp_all add: negative_reply_def)

lemma half_match: "jsonMatch half_reply = Some half_reply"
  by (rule jsonMatch_whole) (simp_all add: half_reply_def)

lemma pad_evaluations_replicate:
  "pad_evaluations evs n = evs @ replicate (n - length evs) padding_evaluation"
proof (induction evs n rule: pad_evaluations.induct)
  case (1 evaluations n)
  show ?case
  proof (cases "length evaluations < n")
    case True
    then have "n - length evaluations = Suc (n - Suc (length evaluations))" by simp
    with True 1 show ?thesis
      by (subst pad_evaluations.simps) (simp add: replicate_app_Cons_same)
  next
    case False
    then show ?thesis by (subst pad_evaluations.simps) simp
  qed
qed

lemma generate_feedback_success:
  assumes "fb_api_key env = Some key"
    and "fb_oracle env (fetches w) = HttpResponse st content"
    and "response_ok st"
    and "fb_insert_error env = None"
    and "fb_update_error env = None"
  shows "generate_feedback env req w =
     (let qas = answersToEvaluate (req_questions req);
          evs = evaluations_of env content qas
      in (\<lparr>status = 200,
           body = FeedbackBody True (returned_overall_score evs (req_scorePenalty req))\<rparr>,
          w\<lparr>fetches := Suc (fetches w),
            answers := answers w @ answersToInsert (req_interviewId req) qas evs,
            interviews := update_interview (req_interviewId req)
               (persisted_overall_score evs (req_scorePenalty req)) (fb_now env)
               (interviews w)\<rparr>))"
  using assms by (simp add: generate_feedback_def Let_def)


lemma not_ok_feedback:
  assumes "fb_api_key env = Some key"
    and "fb_oracle env (fetches w) = HttpResponse st content"
    and "\<not> response_ok st"
  shows "generate_feedback env req w = (not_ok_response st, w\<lparr>fetches := Suc (fetches w)\<rparr>)"
  using assms by (simp add: generate_feedback_def Let_def)

lemma not_ok_questions:
  assumes "qs_api_key env = Some key"
    and "qs_oracle env (fetches w) = HttpResponse st content"
    and "\<not> response_ok st"
  shows "generate_questions env req w = (not_ok_response st, w\<lparr>fetches := Suc (fetches w)\<rparr>)"
  using assms by (simp add: generate_questions_def Let_def)

subsection \<open>The handler on the example inputs\<close>

lemma feedback_env_of_fields:
  "fb_api_key (feedback_env_of r jp ie ue) = Some ''key''"
  "fb_oracle (feedback_env_of r jp ie ue) n = r"
  "fb_insert_error (feedback_env_of r jp ie ue) = ie"
  "fb_update_error (feedback_env_of r jp ie ue) = ue"
  "fb_JSON_parse (feedback_env_of r jp ie ue) = jp"
  "fb_now (feedback_env_of r jp ie ue) = ''2026-01-01T00:00:00.000Z''"
  by (simp_all add: feedback_env_of_def)

lemma response_ok_200: "response_ok 200"
  by (simp add: response_ok_def)

lemma evaluations_of_table:
  assumes "jsonMatch content = Some content"
  shows "evaluations_of (feedback_env_of r [content \<mapsto> evs] ie ue) content qas
     = evs @ replicate (length qas - length evs) padding_evaluation"
  using assms
  by (simp add: evaluations_of_def parse_evaluations_def feedback_env_of_def
      pad_evaluations_replicate)

lemma answersToEvaluate_one:
  "answersToEvaluate (req_questions one_answer)
     = [\<lparr>qa_question = ''Why SQL?'', qa_answer = ''Joins.''\<rparr>]"
  by (simp add: one_answer_def answersToEvaluate_def js_or_str_def)


lemma one_answer_fields:
  "req_interviewId one_answer = ''iv1''" "req_scorePenalty one_answer = 0"
  by (simp_all add: one_answer_def)

lemma two_answers_fields:
  "req_interviewId two_answers = ''iv1''" "req_scorePenalty two_answers = 0"
  by (simp_all add: two_answers_def)

lemma one_interview_fields:
  "fetches one_interview = 0" "answers one_interview = []"
  by (simp_all add: one_interview_def)

lemma one_interview_update:
  "map overall_score (update_interview ''iv1'' s n (interviews one_interview)) = [s]"
  "map iv_status (update_interview ''iv1'' s n (interviews one_interview)) = [''completed'']"
  by (simp_all add: update_interview_def one_interview_def)

lemma negative_scores:
  "overallScore negative_evaluations 0 = Some (- 40)"
  "round_tenth (- 40) = - 40"
  "math_round (- 40) = - 40"
  by (simp_all add: negative_evaluations_def overallScore_def apply_penalty_def
      overallScore_before_penalty_def answer_average_def round_eval)

lemma half_scores:
  "overallScore half_evaluations 0 = Some (145 / 2)"
  "round_tenth (145 / 2) = 145 / 2"
  "math_round (145 / 2) = 73"
  by (simp_all add: half_evaluations_def overallScore_def apply_penalty_def
      overallScore_before_penalty_def answer_average_def round_eval)

lemma negative_rows:
  "map row_scores (answersToInsert ident [a] negative_evaluations) = [(0, 0, 0, 0)]"
  by (simp add: answersToInsert_def negative_evaluations_def eval_at_def js_or_num_def
      clamp_score_def row_scores_def)


text \<open>
  Claim C2 at an oracle reply with sub-scores below the range, for a one-question interview
  with no penalty. The rows stored for the answers are clamped to 0, but the overall score
  is averaged over the evaluations as the oracle gave them: the handler persists and
  returns -40.
\<close>

theorem overall_score_below_zero:
  "(let (resp, w') =
          generate_feedback
            (feedback_env_of (HttpResponse 200 negative_reply)
               [negative_reply \<mapsto> negative_evaluations] None None)
            one_answer one_interview
    in resp = \<lparr>status = 200, body = FeedbackBody True (Some (- 40))\<rparr>
       \<and> map overall_score (interviews w') = [Some (- 40)]
       \<and> map row_scores (answers w') = [(0, 0, 0, 0)])"
proof -
  have evs: "evaluations_of
       (feedback_env_of (HttpResponse 200 negative_reply)
          [negative_reply \<mapsto> negative_evaluations] None None)
       negative_reply [a] = negative_evaluations" for a
    by (simp add: evaluations_of_table [OF negative_match] negative_evaluations_def)
  show ?thesis
    by (simp add: generate_feedback_success [OF feedback_env_of_fields(1,2) response_ok_200
          feedback_env_of_fields(3,4)]
        answersToEvaluate_one evs one_answer_fields one_interview_fields one_interview_update
        persisted_overall_score_def returned_overall_score_def negative_scores negative_rows
        Let_def)
qed

text \<open>
  Claim C10. When the handler succeeds, with \<open>s\<close> the overall score after the penalty, the
  interview is updated with \<open>Math.round(s * 10) / 10\<close> and the response body carries
  \<open>Math.round(s)\<close>; for the evaluation with sub-scores 70, 70, 75, 75 and no penalty the
  first is 72.5 and the second 73.
\<close>

theorem feedback_rounding:
  assumes "fb_api_key env = Some key"
    and "fb_oracle env (fetches w) = HttpResponse st content"
    and "response_ok st"
    and "fb_insert_error env = None"
    and "fb_update_error env = None"
  shows "(let s = overallScore
                 (evaluations_of env content (answersToEvaluate (req_questions req)))
                 (req_scorePenalty req);
             (resp, w') = generate_feedback env req w
         in resp = \<lparr>status = 200, body = FeedbackBody True (map_option math_round s)\<rparr>
            \<and> interviews w' =
                update_interview (req_interviewId req) (map_option round_tenth s) (fb_now env)
                  (interviews w))
         \<and> persisted_overall_score half_evaluations 0 = Some (145 / 2)
         \<and> returned_overall_score half_evaluations 0 = Some 73"
proof -
  have "persisted_overall_score half_evaluations 0 = Some (145 / 2)"
    by (simp add: half_evaluations_def persisted_overall_score_def overallScore_def
        apply_penalty_def overallScore_before_penalty_def answer_average_def round_eval)
  moreover have "returned_overall_score half_evaluations 0 = Some 73"
    by (simp add: half_evaluations_def returned_overall_score_def overallScore_def
        apply_penalty_def overallScore_before_penalty_def answer_average_def round_eval)
  ultimately show ?thesis
    by (simp add: generate_feedback_success [OF assms] Let_def persisted_overall_score_def
        returned_overall_score_def)
qed

theorem feedback_rounding_witness:
  "(let (resp, w') =
          generate_feedback
            (feedback_env_of (HttpResponse 200 half_reply) [half_reply \<mapsto> half_evaluations]
               None None)
            one_answer one_interview
    in resp = \<lparr>status = 200, body = FeedbackBody True (Some 73)\<rparr>
       \<and> map overall_score (interviews w') = [Some (145 / 2)])"
proof -
  have evs: "evaluations_of
       (feedback_env_of (HttpResponse 200 half_reply) [half_reply \<mapsto> half_evaluations]
          None None)
       half_reply [a] = half_evaluations" for a
    by (simp add: evaluations_of_table [OF half_match] half_evaluations_def)
  let ?env = "feedback_env_of (HttpResponse 200 half_reply) [half_reply \<mapsto> half_evaluations]
                None None"
  have h: "fb_api_key ?env = Some ''key''"
    "fb_oracle ?env (fetches one_interview) = HttpResponse 200 half_reply"
    "response_ok 200" "fb_insert_error ?env = None" "fb_update_error ?env = None"
    by (simp_all add: feedback_env_of_fields response_ok_200)
  from feedback_rounding [OF h, of one_answer]
  show ?thesis
    by (simp add: answersToEvaluate_one evs one_answer_fields half_scores
        one_interview_update split: prod.splits)
qed

text \<open>
  Claim C7. When the oracle answers a fetch of either handler with a status that is not a
  success, the handler answers 429 with the rate-limit message for 429, 402 with the
  credits message for 402, and 500 with a generic gateway message for any other status;
  it has made exactly that one fetch and has persisted nothing.
\<close>

theorem oracle_status_mapping:
  assumes "qs_api_key qenv = Some qkey"
    and "qs_oracle qenv (fetches w) = HttpResponse st qcontent"
    and "fb_api_key fenv = Some fkey"
    and "fb_oracle fenv (fetches w) = HttpResponse st fcontent"
    and "\<not> response_ok st"
  shows "(let r = (if st = 429
                  then \<lparr>status = 429,
                        body = ErrorBody ''Rate limit exceeded. Please try again later.''\<rparr>
                  else if st = 402
                  then \<lparr>status = 402,
                        body = ErrorBody ''AI credits exhausted. Please add more credits.''\<rparr>
                  else \<lparr>status = 500,
                        body = ErrorBody (''AI gateway error: '' @ digits st)\<rparr>)
          in generate_questions qenv qreq w = (r, w\<lparr>fetches := Suc (fetches w)\<rparr>)
             \<and> generate_feedback fenv freq w = (r, w\<lparr>fetches := Suc (fetches w)\<rparr>))"
  by (simp add: not_ok_questions [OF assms(1,2,5)] not_ok_feedback [OF assms(3,4,5)]
      not_ok_response_def rate_limited_def quota_exhausted_def server_error_def)

theorem oracle_status_mapping_witness:
  "generate_questions (questions_env_of (HttpResponse 429 []) Map.empty 0) analyst_request
      one_interview
     = (\<lparr>status = 429, body = ErrorBody ''Rate limit exceeded. Please try again later.''\<rparr>,
        one_interview\<lparr>fetches := 1\<rparr>)
   \<and> generate_feedback (feedback_env_of (HttpResponse 429 []) Map.empty None None) one_answer
      one_interview
     = (\<lparr>status = 429, body = ErrorBody ''Rate limit exceeded. Please try again later.''\<rparr>,
        one_interview\<lparr>fetches := 1\<rparr>)"
proof -
  let ?q = "questions_env_of (HttpResponse 429 []) Map.empty 0"
  let ?f = "feedback_env_of (HttpResponse 429 []) Map.empty None None"
  have h: "qs_api_key ?q = Some ''key''"
    "qs_oracle ?q (fetches one_interview) = HttpResponse 429 []"
    "fb_api_key ?f = Some ''key''"
    "fb_oracle ?f (fetches one_interview) = HttpResponse 429 []"
    "\<not> response_ok 429"
    by (simp_all add: questions_env_of_def feedback_env_of_def response_ok_def)
  from oracle_status_mapping [OF h, of analyst_request one_answer] show ?thesis
    by (simp add: one_interview_def Let_def)
qed











section \<open>Properties of the question handler\<close>

lemma pad_questions_replicate:
  "pad_questions qs = qs @ replicate (5 - length qs) filler_question"
proof (induction qs rule: pad_questions.induct)
  case (1 questions)
  show ?case
  proof (cases "length questions < 5")
    case True
    then have "5 - length questions = Suc (5 - Suc (length questions))" by simp
    with True 1 show ?thesis
      by (subst pad_questions.simps) (simp add: replicate_app_Cons_same)
  next
    case False
    then show ?thesis by (subst pad_questions.simps) simp
  qed
qed

lemma five_questions_pad:
  "five_questions jp seed content =
     take 5 (parse_questions jp seed content
             @ replicate (5 - length (parse_questions jp seed content)) filler_question)"
  by (simp add: five_questions_def pad_questions_replicate)





lemma broken_match: "jsonMatch broken_reply = None"
  by (simp add: jsonMatch_def broken_reply_def)

text \<open>
  A reply whose array is never closed is not matched: its line is taken as a question and
  the filler question fills the rest.
\<close>

lemma broken_lines: "questions_from_lines broken_reply = [broken_reply]"
  by (simp add: questions_from_lines_def broken_reply_def trim_def is_space_def
      strip_number_def strip_bullet_def is_digit_def)

lemma unmatched_reply_questions:
  "five_questions jp seed broken_reply =
     [broken_reply, filler_question, filler_question, filler_question, filler_question]"
  by (simp add: five_questions_pad parse_questions_def broken_match broken_lines
      numeral_eq_Suc)




section \<open>Properties of the proctoring sampler\<close>

lemma uniq_acc:
  "set (foldl (\<lambda>acc x. if x \<in> set acc then acc else acc @ [x]) a xs) = set a \<union> set xs"
  by (induction xs arbitrary: a) auto

lemma set_uniq: "set (uniq xs) = set xs"
  by (simp add: uniq_def uniq_acc)

lemma distinct_uniq_acc:
  "distinct a \<Longrightarrow> distinct (foldl (\<lambda>acc x. if x \<in> set acc then acc else acc @ [x]) a xs)"
  by (induction xs arbitrary: a) auto

lemma distinct_uniq: "distinct (uniq xs)"
  by (simp add: uniq_def distinct_uniq_acc)

lemma detectObjects_raises:
  assumes "has_detector d" and "filter is_suspicious preds \<noteq> []"
    and "now - lastWarningTime d > 5000"
  shows "detectObjects True (Some preds) now d =
     d\<lparr>detectedDevices := detectedDevices d @
          map (\<lambda>name. \<lparr>dd_class = name,
                       dd_score = js_or_num (find_score (filter is_suspicious preds) name) 0,
                       dd_timestamp = now\<rparr>) (uniq (map p_label (filter is_suspicious preds))),
        deviceWarningCount := deviceWarningCount d + 1,
        currentDeviceWarning :=
          Some (join '', '' (uniq (map p_label (filter is_suspicious preds)))),
        showDeviceWarning := True,
        lastWarningTime := now\<rparr>"
  using assms by (simp add: detectObjects_def Let_def)

lemma detectObjects_silent:
  assumes "now - lastWarningTime d \<le> 5000"
  shows "detectObjects ready preds now d = d"
  using assms by (simp add: detectObjects_def Let_def split: option.splits)

text \<open>
  Claim C6, as amended. For two consecutive detections of suspicious objects of which the
  first raises a warning at time \<open>t1\<close>: the first warning carries the matched labels
  (each once) and sets the debounce timestamp to \<open>t1\<close>; the second detection, at time
  \<open>t2\<close>, raises a warning of its own, with its labels and the timestamp \<open>t2\<close>, when
  \<open>t2 - t1\<close> is more than 5000 milliseconds, and changes nothing otherwise.
\<close>

theorem debounce_pair:
  assumes "has_detector d"
    and "filter is_suspicious p1 \<noteq> []"
    and "filter is_suspicious p2 \<noteq> []"
    and "t1 - lastWarningTime d > 5000"
  shows "(let d1 = detectObjects True (Some p1) t1 d;
              d2 = detectObjects True (Some p2) t2 d1
          in deviceWarningCount d1 = deviceWarningCount d + 1
             \<and> lastWarningTime d1 = t1
             \<and> currentDeviceWarning d1 =
                 Some (join '', '' (uniq (map p_label (filter is_suspicious p1))))
             \<and> set (uniq (map p_label (filter is_suspicious p1))) =
                 set (map p_label (filter is_suspicious p1))
             \<and> (if t2 - t1 > 5000
                 then deviceWarningCount d2 = deviceWarningCount d + 2
                      \<and> lastWarningTime d2 = t2
                      \<and> currentDeviceWarning d2 =
                          Some (join '', '' (uniq (map p_label (filter is_suspicious p2))))
                 else d2 = d1))"
proof -
  let ?d1 = "detectObjects True (Some p1) t1 d"
  have d1: "deviceWarningCount ?d1 = deviceWarningCount d + 1" "lastWarningTime ?d1 = t1"
    "currentDeviceWarning ?d1 = Some (join '', '' (uniq (map p_label (filter is_suspicious p1))))"
    "has_detector ?d1"
    using assms(1) by (simp_all add: detectObjects_raises [OF assms(1,2,4)])
  show ?thesis
  proof (cases "t2 - t1 > 5000")
    case True
    then have "t2 - lastWarningTime ?d1 > 5000" using d1(2) by simp
    from detectObjects_raises [OF d1(4) assms(3) this] d1 True show ?thesis
      by (simp add: Let_def set_uniq)
  next
    case False
    then have "t2 - lastWarningTime ?d1 \<le> 5000" using d1(2) by simp
    from detectObjects_silent [OF this] d1 False show ?thesis
      by (simp add: Let_def set_uniq)
  qed
qed

lemma phone_suspicious: "filter is_suspicious phone_seen = [\<lparr>p_label = ''cell phone'', p_score = 9 / 10\<rparr>]"
  by (simp add: phone_seen_def is_suspicious_def SUSPICIOUS_OBJECTS_def toLowerCase_def lower_char_def)

text \<open>
  Claim C6 as stated fails at the boundary: of two detections exactly 5 seconds apart, the
  first raises a warning and the second does not.
\<close>

theorem debounce_at_five_seconds:
  "deviceWarningCount (detectObjects True (Some phone_seen) new_year idle_sampler) = 1
   \<and> deviceWarningCount
       (detectObjects True (Some phone_seen) (new_year + 5000)
          (detectObjects True (Some phone_seen) new_year idle_sampler)) = 1"
  by (simp add: detectObjects_def phone_suspicious idle_sampler_def new_year_def Let_def)

theorem debounce_pair_witness:
  "deviceWarningCount
       (detectObjects True (Some phone_seen) (new_year + 6000)
          (detectObjects True (Some phone_seen) new_year idle_sampler)) = 2
   \<and> currentDeviceWarning
       (detectObjects True (Some phone_seen) (new_year + 6000)
          (detectObjects True (Some phone_seen) new_year idle_sampler)) = Some ''cell phone''
   \<and> deviceWarningCount
       (detectObjects True (Some phone_seen) (new_year + 3000)
          (detectObjects True (Some phone_seen) new_year idle_sampler)) = 1"
proof -
  have h: "has_detector idle_sampler" "filter is_suspicious phone_seen \<noteq> []"
    "new_year - lastWarningTime idle_sampler > 5000"
    by (simp_all add: idle_sampler_def phone_suspicious new_year_def)
  from debounce_pair [OF h(1,2,2,3), of "new_year + 6000"]
    debounce_pair [OF h(1,2,2,3), of "new_year + 3000"]
  show ?thesis
    by (simp add: Let_def phone_suspicious uniq_def idle_sampler_def)
qed

section \<open>Properties of the session state machine\<close>

subsection \<open>The penalty ledger\<close>

lemma tab_switch_penalty:
  assumes "c_step c = Interview"
  shows "tabSwitchCount (handleVisibilityChange True c) = tabSwitchCount c + 1"
    and "scorePenalty (handleVisibilityChange True c) = scorePenalty c + 5"
    and "deviceWarningCount (detection (handleVisibilityChange True c))
           = deviceWarningCount (detection c)"
  using assms by (simp_all add: handleVisibilityChange_def toast_def)

lemma device_warning_penalty:
  assumes "c_step c = Interview"
    and "deviceWarningCount (detectObjects ready preds now (detection c))
           = deviceWarningCount (detection c) + 1"
  shows "scorePenalty (detectionTick ready preds now c) = scorePenalty c + 10"
    and "tabSwitchCount (detectionTick ready preds now c) = tabSwitchCount c"
    and "deviceWarningCount (detection (detectionTick ready preds now c))
           = deviceWarningCount (detection c) + 1"
  using assms
  by (simp_all add: detectionTick_def rerender_def device_penalty_effect_def toast_def)

lemma detectObjects_count:
  "deviceWarningCount (detectObjects ready preds now d) = deviceWarningCount d
   \<or> deviceWarningCount (detectObjects ready preds now d) = deviceWarningCount d + 1"
  by (simp add: detectObjects_def Let_def split: option.splits)

lemma device_penalty_effect_ledger:
  "tabSwitchCount (device_penalty_effect c) = tabSwitchCount c"
  "detection (device_penalty_effect c) = detection c"
  "scorePenalty c \<le> scorePenalty (device_penalty_effect c)"
  by (simp_all add: device_penalty_effect_def toast_def)

lemma rerender_ledger:
  "tabSwitchCount (rerender old new) = tabSwitchCount new"
  "detection (rerender old new) = detection new"
  "scorePenalty new \<le> scorePenalty (rerender old new)"
  by (simp_all add: rerender_def device_penalty_effect_ledger)

lemma submitInterview_ledger:
  "tabSwitchCount (fst (submitInterview env qs c w)) = tabSwitchCount c"
  "deviceWarningCount (detection (fst (submitInterview env qs c w)))
     = deviceWarningCount (detection c)"
  "scorePenalty c \<le> scorePenalty (fst (submitInterview env qs c w))"
proof -
  let ?c1 = "rerender c (stopCamera (c\<lparr>c_step := Submitting\<rparr>))"
  let ?c2 = "toast ''Error'' ''Failed to submit interview. Please try again.'' ?c1"
  have a: "tabSwitchCount ?c1 = tabSwitchCount c"
    "deviceWarningCount (detection ?c1) = deviceWarningCount (detection c)"
    "scorePenalty c \<le> scorePenalty ?c1"
    using rerender_ledger(3) [of "stopCamera (c\<lparr>c_step := Submitting\<rparr>)" c]
    by (simp_all add: rerender_ledger stopCamera_def stopDetection_def)
  have b: "tabSwitchCount (rerender ?c2 (?c2\<lparr>c_step := Interview\<rparr>)) = tabSwitchCount c"
    "deviceWarningCount (detection (rerender ?c2 (?c2\<lparr>c_step := Interview\<rparr>)))
       = deviceWarningCount (detection c)"
    "scorePenalty c \<le> scorePenalty (rerender ?c2 (?c2\<lparr>c_step := Interview\<rparr>))"
    using a rerender_ledger(3) [of "?c2\<lparr>c_step := Interview\<rparr>" ?c2]
    by (simp_all add: rerender_ledger(1,2) toast_def)
  show "tabSwitchCount (fst (submitInterview env qs c w)) = tabSwitchCount c"
    "deviceWarningCount (detection (fst (submitInterview env qs c w)))
       = deviceWarningCount (detection c)"
    "scorePenalty c \<le> scorePenalty (fst (submitInterview env qs c w))"
    using a b
    by (simp_all add: submitInterview_def Let_def split: prod.splits option.splits)
qed

lemma ledger_monotone:
  assumes "apply_event (c, w) e = (c', w')"
  shows "tabSwitchCount c \<le> tabSwitchCount c'
     \<and> deviceWarningCount (detection c) \<le> deviceWarningCount (detection c')
     \<and> scorePenalty c \<le> scorePenalty c'"
proof (cases e)
  case (VisibilityChange hidden)
  then show ?thesis
    using assms by (auto simp: handleVisibilityChange_def toast_def)
next
  case (DetectionTick ready preds now)
  have "c' = detectionTick ready preds now c"
    using assms DetectionTick by simp
  then show ?thesis
    using detectObjects_count [of ready preds now "detection c"]
      rerender_ledger(3) [of "c\<lparr>detection := detectObjects ready preds now (detection c)\<rparr>" c]
    by (auto simp: detectionTick_def rerender_ledger(1,2))
next
  case (Next env)
  have h: "handleNext env c w = (c', w')" using assms Next by simp
  let ?c1 = "c\<lparr>c_questions := updatedQuestions c\<rparr>"
  show ?thesis
    using h submitInterview_ledger [where env = env and qs = "updatedQuestions c" and c = ?c1 and w = w]
    by (auto simp: handleNext_def Let_def split: if_splits)
qed

lemmas client_eval =
  run_events_def detectionTick_def rerender_def device_penalty_effect_def toast_def
  handleNext_def updatedQuestions_def submitInterview_def submission_body_def stopCamera_def
  stopDetection_def invoke_data_def handleVisibilityChange_def
  last_question_client_def role_client_def idle_sampler_def

text \<open>
  Claim C5 at a session with one device warning and one failed submission: the warning adds
  10 to the penalty, and when the failed submission sets the step back to \<open>interview\<close>
  the effect runs again and adds another 10 with no new warning. The penalty is 20 with no
  tab switch and one device warning.
\<close>

theorem device_penalty_applied_twice:
  "(let (c, w) =
          run_events (last_question_client, one_interview)
            [DetectionTick True (Some phone_seen) new_year,
             Next (feedback_env_of (HttpResponse 503 []) Map.empty None None)]
    in c_step c = Interview
       \<and> tabSwitchCount c = 0
       \<and> deviceWarningCount (detection c) = 1
       \<and> scorePenalty c = 20
       \<and> \<not> ledger_invariant c)"
  by (simp add: client_eval detectObjects_def phone_suspicious new_year_def Let_def
      generate_feedback_def feedback_env_of_def response_ok_def not_ok_response_def
      server_error_def one_interview_def ledger_invariant_def)

subsection \<open>Starting the interview\<close>

lemma uploadResume_keeps:
  "fetches (snd (uploadResume env c w)) = fetches w
   \<and> interviews (snd (uploadResume env c w)) = interviews w
   \<and> answers (snd (uploadResume env c w)) = answers w"
  by (simp add: uploadResume_def split: option.splits)

lemma rate_limited_questions:
  assumes "qs_api_key qenv = Some key"
    and "qs_oracle qenv n = HttpResponse 429 content"
    and "fetches w1 = n"
  shows "generate_questions qenv req w1 = (rate_limited, w1\<lparr>fetches := Suc n\<rparr>)"
  using assms
  by (simp add: generate_questions_def Let_def response_ok_def not_ok_response_def)

text \<open>
  Claim C8, as amended. When the interview row has been inserted and the oracle then answers
  the question handler's fetch with 429, the handler answers 429 with the rate-limit
  message; the page stays on its step with its questions, shows the generic notification
  and is no longer generating; the inserted interview row, in progress, remains in the
  store and its id in the page's state; no answers are stored, and a resume uploaded before
  remains.
\<close>

theorem rate_limited_start_persists:
  assumes "interview_insert env = Inr new_id"
    and "qs_api_key (questions_env env) = Some key"
    and "qs_oracle (questions_env env) (fetches w) = HttpResponse 429 content"
  shows "fst (generate_questions (questions_env env) req w) =
            \<lparr>status = 429,
              body = ErrorBody ''Rate limit exceeded. Please try again later.''\<rparr>
     \<and> (let (c', w') = generateQuestions env c w
          in c_step c' = c_step c
             \<and> c_questions c' = c_questions c
             \<and> isGenerating c' = False
             \<and> toasts c' =
                 toasts c @ [(''Error'', ''Failed to generate questions. Please try again.'')]
             \<and> c_interviewId c' = new_id
             \<and> interviews w' = interviews w @
                 [\<lparr>iv_id = new_id, iv_user_id = c_userId c, iv_role = selectedRole c,
                   overall_score = Some 0, iv_status = ''in_progress'', completed_at = None\<rparr>]
             \<and> answers w' = answers w
             \<and> fetches w' = Suc (fetches w)
             \<and> resumes w' =
                 (case resumeFile c of
                    None \<Rightarrow> resumes w
                  | Some f \<Rightarrow> resumes (snd (uploadResume env c w))))"
proof -
  note gq = rate_limited_questions [OF assms(2,3)]
  have r: "fst (generate_questions (questions_env env) req w) =
            \<lparr>status = 429,
              body = ErrorBody ''Rate limit exceeded. Please try again later.''\<rparr>"
    by (simp add: gq rate_limited_def)
  show ?thesis
  proof (cases "resumeFile c")
    case None
    then show ?thesis
      using assms(1) r
      by (simp add: generateQuestions_def Let_def gq rate_limited_def invoke_data_def
          generating_failed_def toast_def response_ok_def)
  next
    case (Some f)
    obtain n w0 where u: "uploadResume env c w = (n, w0)" by (cases "uploadResume env c w")
    have k: "fetches w0 = fetches w" "interviews w0 = interviews w" "answers w0 = answers w"
      using uploadResume_keeps [of env c w] u by simp_all
    show ?thesis
      using assms(1) Some u k r
      by (simp add: generateQuestions_def Let_def gq rate_limited_def invoke_data_def
          generating_failed_def toast_def response_ok_def)
  qed
qed

text \<open>
  Claim C8 as stated fails: after the oracle's 429 the store holds an interview row that
  was not there before.
\<close>

theorem rate_limited_start_leaves_interview:
  "(let (c, w) = generateQuestions rate_limited_start role_client empty_store
    in c_step c = Role
       \<and> c_interviewId c = ''iv2''
       \<and> interviews empty_store = []
       \<and> interviews w =
           [\<lparr>iv_id = ''iv2'', iv_user_id = ''u1'', iv_role = ''data-analyst'',
             overall_score = Some 0, iv_status = ''in_progress'', completed_at = None\<rparr>])"
  by (simp add: generateQuestions_def rate_limited_start_def role_client_def empty_store_def
      generate_questions_def questions_env_of_def response_ok_def not_ok_response_def
      rate_limited_def invoke_data_def generating_failed_def toast_def Let_def)

theorem rate_limited_start_persists_witness:
  "(let (c, w) = generateQuestions rate_limited_start role_client one_interview
    in c_step c = Role \<and> c_questions c = [] \<and> isGenerating c = False
       \<and> map iv_id (interviews w) = [''iv1'', ''iv2'']
       \<and> map iv_status (interviews w) = [''in_progress'', ''in_progress'']
       \<and> fetches w = 1)"
proof -
  have h: "interview_insert rate_limited_start = Inr ''iv2''"
    "qs_api_key (questions_env rate_limited_start) = Some ''key''"
    "qs_oracle (questions_env rate_limited_start) (fetches one_interview) = HttpResponse 429 []"
    by (simp_all add: rate_limited_start_def questions_env_of_def)
  from rate_limited_start_persists [OF h, where c = role_client and req = analyst_request]
  show ?thesis
    by (simp add: role_client_def one_interview_def split: prod.splits)
qed

subsection \<open>Submitting the interview\<close>

lemma generate_feedback_failure:
  assumes "fb_api_key env = None
     \<or> (\<exists>msg. fb_oracle env (fetches w) = NetworkError msg)
     \<or> (\<exists>st content. fb_oracle env (fetches w) = HttpResponse st content \<and> \<not> response_ok st)
     \<or> fb_insert_error env \<noteq> None
     \<or> fb_update_error env \<noteq> None"
  shows "invoke_data (fst (generate_feedback env req w)) = None"
  using assms
  by (auto simp: generate_feedback_def invoke_data_def Let_def server_error_def response_ok_def
      not_ok_response_def rate_limited_def quota_exhausted_def
      split: option.splits fetch_result.splits)

lemma rerender_submitting:
  assumes "c_step c = Interview"
  shows "rerender c (stopCamera (c\<lparr>c_step := Submitting\<rparr>))
      = stopCamera (c\<lparr>c_step := Submitting\<rparr>)"
  using assms
  by (simp add: rerender_def device_penalty_effect_def stopCamera_def stopDetection_def)

lemma submit_failure:
  assumes "invoke_data (fst (generate_feedback env (submission_body c qs) w)) = None"
    and "c_step c = Interview"
  shows "fst (submitInterview env qs c w) =
     device_penalty_effect
       ((toast ''Error'' ''Failed to submit interview. Please try again.''
          (stopCamera (c\<lparr>c_step := Submitting\<rparr>)))\<lparr>c_step := Interview\<rparr>)"
proof -
  obtain resp w' where g: "generate_feedback env (submission_body c qs) w = (resp, w')"
    by (cases "generate_feedback env (submission_body c qs) w")
  then have n: "invoke_data resp = None" using assms(1) by simp
  show ?thesis
    by (simp add: submitInterview_def g n rerender_submitting [OF assms(2)] Let_def)
       (simp add: rerender_def toast_def stopCamera_def)
qed

lemma submit_success:
  assumes "fb_api_key env = Some key"
    and "fb_oracle env (fetches w) = HttpResponse st content"
    and "response_ok st"
    and "fb_insert_error env = None"
    and "fb_update_error env = None"
    and "c_step c = Interview"
  shows "submitInterview env qs c w =
     ((stopCamera (c\<lparr>c_step := Submitting\<rparr>))\<lparr>location := ''/feedback/'' @ c_interviewId c\<rparr>,
      snd (generate_feedback env (submission_body c qs) w))"
  by (simp add: submitInterview_def rerender_submitting [OF assms(6)]
      generate_feedback_success [OF assms(1-5)] Let_def invoke_data_def response_ok_def)


lemma generate_feedback_failure_interviews:
  assumes "invoke_data (fst (generate_feedback env req w)) = None"
  shows "interviews (snd (generate_feedback env req w)) = interviews w"
  using assms
  by (auto simp: generate_feedback_def invoke_data_def Let_def response_ok_def
      split: option.splits fetch_result.splits if_splits)

lemma submitInterview_store:
  "snd (submitInterview env qs c w) = snd (generate_feedback env (submission_body c qs) w)"
  by (simp add: submitInterview_def Let_def split: prod.splits option.splits)

lemma submission_body_questions:
  "submission_body (c\<lparr>c_questions := qs'\<rparr>) qs = submission_body c qs"
  by (simp add: submission_body_def)

lemma handleNext_last:
  assumes "currentQuestion c + 1 = length (c_questions c)"
  shows "handleNext env c w =
     submitInterview env (updatedQuestions c) (c\<lparr>c_questions := updatedQuestions c\<rparr>) w"
  using assms by (simp add: handleNext_def Let_def)

lemma length_updatedQuestions: "length (updatedQuestions c) = length (c_questions c)"
  by (simp add: updatedQuestions_def)

lemma updatedQuestions_others:
  "i \<noteq> currentQuestion c \<Longrightarrow> updatedQuestions c ! i = c_questions c ! i"
  by (simp add: updatedQuestions_def)

lemma updatedQuestions_current:
  "currentQuestion c < length (c_questions c) \<Longrightarrow>
   updatedQuestions c ! currentQuestion c =
     (c_questions c ! currentQuestion c)\<lparr>q_answer := Some (currentAnswer c)\<rparr>"
  by (simp add: updatedQuestions_def)

lemma update_interview_completed:
  "list_all (\<lambda>r. iv_id r = ident \<longrightarrow> iv_status r = ''completed'')
     (update_interview ident score now rows)"
  by (induction rows) (simp_all add: update_interview_def)

lemma update_interview_ids:
  "map iv_id (update_interview ident score now rows) = map iv_id rows"
  by (simp add: update_interview_def)

lemma failed_client_fields:
  fixes c :: client
  defines "c1 \<equiv> device_penalty_effect
       ((toast ''Error'' ''Failed to submit interview. Please try again.''
          (stopCamera (c\<lparr>c_step := Submitting\<rparr>)))\<lparr>c_step := Interview\<rparr>)"
  shows "c_step c1 = Interview" "currentQuestion c1 = currentQuestion c"
    "currentAnswer c1 = currentAnswer c" "c_questions c1 = c_questions c"
    "c_interviewId c1 = c_interviewId c" "location c1 = location c"
  by (simp_all add: c1_def device_penalty_effect_def toast_def stopCamera_def)

text \<open>
  Claim C9. On the last question, when the submission fails at the evaluation (the oracle
  answers with a failure status) or at the persistence (the insert or the update fails),
  the page is back on the step \<open>interview\<close> at the same question, with the typed answer
  and the questions with their answers, the last one saved, all others as they were; and a
  second submission for which the oracle and the persistence succeed leaves the page on the
  feedback route of the interview and every row of the interview completed.
\<close>

theorem submission_failure_retry:
  assumes "c_step c = Interview"
    and "currentQuestion c + 1 = length (c_questions c)"
    and "(\<exists>st content. fb_oracle env1 (fetches w) = HttpResponse st content \<and> \<not> response_ok st)
         \<or> fb_insert_error env1 \<noteq> None
         \<or> fb_update_error env1 \<noteq> None"
    and "fb_api_key env2 = Some key"
    and "fb_oracle env2 (fetches (snd (handleNext env1 c w))) = HttpResponse st2 content2"
    and "response_ok st2"
    and "fb_insert_error env2 = None"
    and "fb_update_error env2 = None"
  shows "(let (c1, w1) = handleNext env1 c w;
              (c2, w2) = handleNext env2 c1 w1
          in c_step c1 = Interview
             \<and> currentQuestion c1 = currentQuestion c
             \<and> currentAnswer c1 = currentAnswer c
             \<and> c_questions c1 = updatedQuestions c
             \<and> q_answer (c_questions c1 ! currentQuestion c) = Some (currentAnswer c)
             \<and> (\<forall>i. i \<noteq> currentQuestion c \<longrightarrow> c_questions c1 ! i = c_questions c ! i)
             \<and> c_step c2 = Submitting
             \<and> location c2 = ''/feedback/'' @ c_interviewId c
             \<and> c_questions c2 = updatedQuestions c
             \<and> map iv_id (interviews w2) = map iv_id (interviews w)
             \<and> list_all (\<lambda>r. iv_id r = c_interviewId c \<longrightarrow> iv_status r = ''completed'')
                  (interviews w2))"
proof -
  let ?c' = "c\<lparr>c_questions := updatedQuestions c\<rparr>"
  let ?body = "submission_body c (updatedQuestions c)"
  have cur: "currentQuestion c < length (c_questions c)" using assms(2) by simp
  have fail: "invoke_data (fst (generate_feedback env1 ?body w)) = None"
    using assms(3) by (intro generate_feedback_failure) blast
  have n1: "handleNext env1 c w = submitInterview env1 (updatedQuestions c) ?c' w"
    using assms(2) by (rule handleNext_last)
  obtain c1 w1 where r1: "handleNext env1 c w = (c1, w1)" by (cases "handleNext env1 c w")
  have c1: "c1 = device_penalty_effect
       ((toast ''Error'' ''Failed to submit interview. Please try again.''
          (stopCamera (?c'\<lparr>c_step := Submitting\<rparr>)))\<lparr>c_step := Interview\<rparr>)"
    using submit_failure [of env1 ?c' "updatedQuestions c" w] fail assms(1) r1 n1
    by (simp add: submission_body_questions)
  have w1: "w1 = snd (generate_feedback env1 ?body w)"
    using r1 n1 submitInterview_store [of env1 "updatedQuestions c" ?c' w]
    by (simp add: submission_body_questions)
  have f1: "c_step c1 = Interview" "currentQuestion c1 = currentQuestion c"
    "currentAnswer c1 = currentAnswer c" "c_questions c1 = updatedQuestions c"
    "c_interviewId c1 = c_interviewId c"
    unfolding c1 by (simp_all add: failed_client_fields)
  have iv1: "interviews w1 = interviews w"
    unfolding w1 using fail by (rule generate_feedback_failure_interviews)
  have u1: "updatedQuestions c1 = updatedQuestions c"
    using cur by (simp add: updatedQuestions_def f1)
  let ?c1' = "c1\<lparr>c_questions := updatedQuestions c\<rparr>"
  have last1: "currentQuestion c1 + 1 = length (c_questions c1)"
    using assms(2) by (simp add: f1 length_updatedQuestions)
  have n2: "handleNext env2 c1 w1 = submitInterview env2 (updatedQuestions c) ?c1' w1"
    using handleNext_last [OF last1, of env2 w1] by (simp add: u1)
  have o2: "fb_oracle env2 (fetches w1) = HttpResponse st2 content2"
    using assms(5) r1 by simp
  have s1: "c_step ?c1' = Interview" by (simp add: f1)
  note ok = submit_success [OF assms(4) o2 assms(6,7,8) s1, of "updatedQuestions c"]
  obtain c2 w2 where r2: "handleNext env2 c1 w1 = (c2, w2)" by (cases "handleNext env2 c1 w1")
  have c2: "c2 = (stopCamera (?c1'\<lparr>c_step := Submitting\<rparr>))
                   \<lparr>location := ''/feedback/'' @ c_interviewId ?c1'\<rparr>"
    and w2: "w2 = snd (generate_feedback env2 (submission_body ?c1' (updatedQuestions c)) w1)"
    using r2 n2 ok by simp_all
  have f2: "c_step c2 = Submitting" "location c2 = ''/feedback/'' @ c_interviewId c"
    "c_questions c2 = updatedQuestions c"
    unfolding c2 by (simp_all add: stopCamera_def f1)
  have iv2: "interviews w2 =
      update_interview (c_interviewId c)
        (persisted_overall_score
           (evaluations_of env2 content2 (answersToEvaluate (updatedQuestions c)))
           (of_nat (scorePenalty c1)))
        (fb_now env2) (interviews w)"
    unfolding w2
    by (simp add: generate_feedback_success [OF assms(4) o2 assms(6,7,8)] Let_def
        submission_body_def f1 iv1)
  have q: "q_answer (c_questions c1 ! currentQuestion c) = Some (currentAnswer c)"
    by (simp add: f1 updatedQuestions_current [OF cur])
  have others: "\<forall>i. i \<noteq> currentQuestion c \<longrightarrow> c_questions c1 ! i = c_questions c ! i"
    by (simp add: f1 updatedQuestions_others)
  show ?thesis
    using f1 f2 q others
    by (simp add: r1 r2 iv2 update_interview_ids update_interview_completed)
qed


lemma last_question_client_fields:
  "c_step last_question_client = Interview"
  "currentQuestion last_question_client = 1"
  "currentAnswer last_question_client = ''Pandas.''"
  "c_interviewId last_question_client = ''iv1''"
  "length (c_questions last_question_client) = 2"
  "map q_answer (updatedQuestions last_question_client) = [Some ''Joins.'', Some ''Pandas.'']"
  by (simp_all add: last_question_client_def role_client_def updatedQuestions_def)

theorem submission_failure_retry_witness:
  "(let (c1, w1) =
          handleNext
            (feedback_env_of (HttpResponse 200 half_reply) [half_reply \<mapsto> half_evaluations]
               None (Some ''update failed''))
            last_question_client one_interview;
        (c2, w2) =
          handleNext
            (feedback_env_of (HttpResponse 200 half_reply) [half_reply \<mapsto> half_evaluations]
               None None)
            c1 w1
    in c_step c1 = Interview
       \<and> currentQuestion c1 = 1
       \<and> currentAnswer c1 = ''Pandas.''
       \<and> map q_answer (c_questions c1) = [Some ''Joins.'', Some ''Pandas.'']
       \<and> c_step c2 = Submitting
       \<and> location c2 = ''/feedback/iv1''
       \<and> map iv_id (interviews w2) = [''iv1'']
       \<and> map iv_status (interviews w2) = [''completed''])"
proof -
  let ?env1 = "feedback_env_of (HttpResponse 200 half_reply) [half_reply \<mapsto> half_evaluations]
                 None (Some ''update failed'')"
  let ?env2 = "feedback_env_of (HttpResponse 200 half_reply) [half_reply \<mapsto> half_evaluations]
                 None None"
  have h: "c_step last_question_client = Interview"
    "currentQuestion last_question_client + 1 = length (c_questions last_question_client)"
    "(\<exists>st content. fb_oracle ?env1 (fetches one_interview) = HttpResponse st content
          \<and> \<not> response_ok st)
     \<or> fb_insert_error ?env1 \<noteq> None
     \<or> fb_update_error ?env1 \<noteq> None"
    "fb_api_key ?env2 = Some ''key''"
    "fb_oracle ?env2 (fetches (snd (handleNext ?env1 last_question_client one_interview)))
       = HttpResponse 200 half_reply"
    "response_ok 200" "fb_insert_error ?env2 = None" "fb_update_error ?env2 = None"
    by (simp_all add: last_question_client_fields feedback_env_of_fields response_ok_200)
  have one: "map iv_id rows = [''iv1''] \<Longrightarrow>
      list_all (\<lambda>r. iv_id r = ''iv1'' \<longrightarrow> iv_status r = ''completed'') rows \<Longrightarrow>
      map iv_status rows = [''completed'']" for rows :: "interview_row list"
    by (cases rows) auto
  have ids: "map iv_id (interviews one_interview) = [''iv1'']"
    by (simp add: one_interview_def)
  from submission_failure_retry [OF h] show ?thesis
    by (auto simp: last_question_client_fields ids one split: prod.splits)
qed

end
